theory Spec2Isabelle
  imports Complex_Main "HOL-Library.Multiset" "HOL-Library.Word"
begin

section \<open>Errors\<close>

text \<open>
  The notebook contains no \<open>try\<close>: every exception raised by a call leaves the function
  that made the call. An exception is a value \<open>Inl e\<close> of the result type \<open>error + 'a\<close>.
  The constructors name the exception classes that the calls of the notebook raise;
  the string is the library's own message.
\<close>

datatype error =
    IOError string
  | CvError string
  | MXNetError string
  | ValueError
  | IndexError

section \<open>Reading the label file\<close>

text \<open>
  Python 2, \<open>for l in synsetfile\<close>: the file object yields the contents cut after every
  newline byte; each line keeps its newline, the last line has none when the file does not
  end with one, and an empty file yields no line.
\<close>

definition newline :: char where
  "newline = CHR 0x0A"

fun file_lines :: "string \<Rightarrow> string list" where
  "file_lines [] = []"
| "file_lines (c # cs) =
     (if c = newline then [c] # file_lines cs
      else (case file_lines cs of [] \<Rightarrow> [[c]] | l # ls \<Rightarrow> (c # l) # ls))"

text \<open>
  \<open>str.rstrip()\<close> without argument removes the trailing whitespace bytes: tab, newline,
  vertical tab, form feed, carriage return and space.
\<close>

definition isspace :: "char \<Rightarrow> bool" where
  "isspace c \<longleftrightarrow> c \<in> {CHR 0x09, CHR 0x0A, CHR 0x0B, CHR 0x0C, CHR 0x0D, CHR 0x20}"

definition rstrip :: "string \<Rightarrow> string" where
  "rstrip s = rev (dropWhile isspace (rev s))"

text \<open>
  The loop of \<open>loadCategories\<close>: \<open>synsets.append(l.rstrip())\<close> for every line, the list
  \<open>synsets\<close> being the accumulator.
\<close>

fun synsets_loop :: "string list \<Rightarrow> string list \<Rightarrow> string list" where
  "synsets_loop [] synsets = synsets"
| "synsets_loop (l # ls) synsets = synsets_loop ls (synsets @ [rstrip l])"

text \<open>The number of lines of a file, counted on its bytes.\<close>

definition line_count :: "string \<Rightarrow> nat" where
  "line_count s =
     count_list s newline + (if s = [] \<or> last s = newline then 0 else 1)"

section \<open>Arrays\<close>

text \<open>
  A numpy array or an MXNet \<open>NDArray\<close>: its shape and the element at each index. The
  element function is only read at indices inside the shape.
\<close>

record 'a ndarray =
  shape :: "nat list"
  item :: "nat list \<Rightarrow> 'a"

type_synonym uint8 = "8 word"

definition swap_list :: "nat \<Rightarrow> nat \<Rightarrow> 'a list \<Rightarrow> 'a list" where
  "swap_list i j xs = xs[i := xs ! j, j := xs ! i]"

text \<open>\<open>np.swapaxes(a, i, j)\<close> raises when an axis is not an axis of the array.\<close>

definition swapaxes :: "'a ndarray \<Rightarrow> nat \<Rightarrow> nat \<Rightarrow> error + 'a ndarray" where
  "swapaxes a i j =
     (if i < length (shape a) \<and> j < length (shape a)
      then Inr \<lparr>shape = swap_list i j (shape a),
                item = (\<lambda>idx. item a (swap_list i j idx))\<rparr>
      else Inl ValueError)"

text \<open>\<open>a[np.newaxis, :]\<close>: a new leading axis of length one.\<close>

definition newaxis :: "'a ndarray \<Rightarrow> 'a ndarray" where
  "newaxis a = \<lparr>shape = 1 # shape a, item = (\<lambda>idx. item a (tl idx))\<rparr>"

text \<open>
  \<open>mx.nd.array\<close> copies a numpy array into an \<open>NDArray\<close> of 32-bit floats; every byte
  value is such a float exactly, so the element is the value of the byte. The second
  function is \<open>mx.nd.array\<close> on a Python list of numbers.
\<close>

definition nd_array :: "uint8 ndarray \<Rightarrow> real ndarray" where
  "nd_array a = \<lparr>shape = shape a, item = (\<lambda>idx. real (unat (item a idx)))\<rparr>"

definition nd_array_list :: "real list \<Rightarrow> real ndarray" where
  "nd_array_list xs =
     \<lparr>shape = [length xs],
      item = (\<lambda>idx. case idx of [i] \<Rightarrow> (if i < length xs then xs ! i else 0) | _ \<Rightarrow> 0)\<rparr>"

text \<open>
  \<open>np.squeeze\<close> drops every axis of length one. An index of the result is read in the
  argument with a zero put back at each dropped axis.
\<close>

fun unsqueeze_index :: "nat list \<Rightarrow> nat list \<Rightarrow> nat list" where
  "unsqueeze_index [] idx = []"
| "unsqueeze_index (d # ds) idx =
     (if d = 1 then 0 # unsqueeze_index ds idx
      else (case idx of [] \<Rightarrow> [] | i # is \<Rightarrow> i # unsqueeze_index ds is))"

definition squeeze :: "'a ndarray \<Rightarrow> 'a ndarray" where
  "squeeze a =
     \<lparr>shape = filter (\<lambda>d. d \<noteq> 1) (shape a),
      item = (\<lambda>idx. item a (unsqueeze_index (shape a) idx))\<rparr>"

text \<open>The elements of a one-dimensional array, as a list; nothing for another array.\<close>

definition as_vector :: "'a ndarray \<Rightarrow> 'a list option" where
  "as_vector a =
     (case shape a of [k] \<Rightarrow> Some (map (\<lambda>i. item a [i]) [0..<k]) | _ \<Rightarrow> None)"

section \<open>Floats\<close>

text \<open>
  The arrays that the notebook builds itself hold bytes converted to floats and the
  constant 0: they are read as arrays of reals. An output of the network is an array of
  32-bit floats of which any may be NaN. Infinite values are ordered like very large and
  very small finite ones and are not told apart from them.
\<close>

datatype f32 = Val real | NaN


definition sort_le :: "f32 \<Rightarrow> f32 \<Rightarrow> bool" where
  "sort_le a b = (case b of NaN \<Rightarrow> True | Val y \<Rightarrow> (case a of NaN \<Rightarrow> False | Val x \<Rightarrow> x \<le> y))"

section \<open>The image library\<close>

text \<open>
  \<open>cv2.imread\<close> gives \<open>None\<close> for a file it cannot decode and otherwise an array of
  bytes of shape (height, width, 3) in blue, green, red order; it is a parameter of the
  model. \<open>cv2.cvtColor(img, cv2.COLOR_BGR2RGB)\<close> raises on \<open>None\<close>, on an empty image
  and on an array that does not have three or four channels; its result has three
  channels, channel \<open>c\<close> being channel \<open>2 - c\<close> of the argument.
\<close>

definition bgr2rgb_index :: "nat list \<Rightarrow> nat list" where
  "bgr2rgb_index idx = (case idx of [y, x, c] \<Rightarrow> [y, x, 2 - c] | _ \<Rightarrow> idx)"

definition cvtColor_BGR2RGB :: "uint8 ndarray option \<Rightarrow> error + uint8 ndarray" where
  "cvtColor_BGR2RGB src =
     (case src of
        None \<Rightarrow> Inl (CvError ''cvtColor'')
      | Some img \<Rightarrow>
          (case shape img of
             [h, w, scn] \<Rightarrow>
               (if 0 < h \<and> 0 < w \<and> (scn = 3 \<or> scn = 4)
                then Inr \<lparr>shape = [h, w, 3], item = (\<lambda>idx. item img (bgr2rgb_index idx))\<rparr>
                else Inl (CvError ''cvtColor''))
           | _ \<Rightarrow> Inl (CvError ''cvtColor'')))"

text \<open>
  \<open>cv2.resize(img, (width, height))\<close> gives an array of shape (height, width, channels);
  it raises on an empty image and on an empty target size. The interpolation that
  computes the new pixels is the parameter \<open>interp\<close>.
\<close>

type_synonym interpolation = "uint8 ndarray \<Rightarrow> nat \<Rightarrow> nat \<Rightarrow> nat list \<Rightarrow> uint8"

definition resize :: "interpolation \<Rightarrow> uint8 ndarray \<Rightarrow> nat \<times> nat \<Rightarrow> error + uint8 ndarray" where
  "resize interp src dsize =
     (case dsize of (dw, dh) \<Rightarrow>
        (case shape src of
           [h, w, c] \<Rightarrow>
             (if 0 < h \<and> 0 < w \<and> 0 < dw \<and> 0 < dh
              then Inr \<lparr>shape = [dh, dw, c], item = interp src dw dh\<rparr>
              else Inl (CvError ''resize''))
         | _ \<Rightarrow> Inl (CvError ''resize'')))"

section \<open>The deep-learning framework\<close>

type_synonym symbol = string
type_synonym params = "string \<rightharpoonup> real ndarray"

datatype device = Cpu nat | Gpu nat

text \<open>
  The state of an \<open>mx.mod.Module\<close>. The field \<open>forward_passes\<close> is a ghost counter: it
  counts the forward passes the module has run.
\<close>

record mx_module =
  sym :: symbol
  ctx :: device
  binded :: bool
  for_training :: bool
  data_shapes :: "(string \<times> nat list) list"
  params_initialized :: bool
  arg_params :: params
  aux_params :: params
  outputs :: "f32 ndarray list"
  forward_passes :: nat

text \<open>
  What the libraries compute is not code of this repository: the file system, the image
  decoder, the interpolation, the checkpoint loader, the conditions under which the
  framework refuses to bind or to take parameters, the network itself and numpy's
  \<open>argsort\<close> are the fields of the environment. So is \<open>select_other\<close>: what numpy's
  sorting, slicing and indexing at the end of \<open>predict\<close> give for an array that is not
  one-dimensional.
\<close>

record env =
  fs :: "string \<Rightarrow> error + string"
  imread :: "string \<Rightarrow> uint8 ndarray option"
  interp :: interpolation
  load_checkpoint :: "string \<Rightarrow> nat \<Rightarrow> error + (symbol \<times> params \<times> params)"
  bind_error :: "mx_module \<Rightarrow> bool \<Rightarrow> (string \<times> nat list) list \<Rightarrow> error option"
  set_params_error :: "mx_module \<Rightarrow> params \<Rightarrow> params \<Rightarrow> error option"
  run_net :: "mx_module \<Rightarrow> real ndarray list \<Rightarrow> error + f32 ndarray list"
  argsort :: "f32 list \<Rightarrow> nat list"
  select_other :: "f32 ndarray \<Rightarrow> string list \<Rightarrow> int \<Rightarrow> error + (f32 \<times> string) list"

text \<open>\<open>mx.mod.Module(symbol=sym, context=c)\<close>; without \<open>context\<close> the framework takes \<open>mx.cpu()\<close>.\<close>

definition default_context :: device where
  "default_context = Cpu 0"

definition Module :: "symbol \<Rightarrow> device \<Rightarrow> mx_module" where
  "Module s c =
     \<lparr>sym = s, ctx = c, binded = False, for_training = False, data_shapes = [],
      params_initialized = False, arg_params = Map.empty, aux_params = Map.empty,
      outputs = [], forward_passes = 0\<rparr>"

definition module_bind ::
  "env \<Rightarrow> mx_module \<Rightarrow> bool \<Rightarrow> (string \<times> nat list) list \<Rightarrow> error + mx_module" where
  "module_bind E m ft shapes =
     (case bind_error E m ft shapes of
        Some e \<Rightarrow> Inl e
      | None \<Rightarrow> Inr (m\<lparr>binded := True, for_training := ft, data_shapes := shapes\<rparr>))"

definition module_set_params :: "env \<Rightarrow> mx_module \<Rightarrow> params \<Rightarrow> params \<Rightarrow> error + mx_module" where
  "module_set_params E m arg aux =
     (case set_params_error E m arg aux of
        Some e \<Rightarrow> Inl e
      | None \<Rightarrow> Inr (m\<lparr>params_initialized := True, arg_params := arg, aux_params := aux\<rparr>))"

definition module_forward :: "env \<Rightarrow> mx_module \<Rightarrow> real ndarray list \<Rightarrow> error + mx_module" where
  "module_forward E m data =
     (case run_net E m data of
        Inl e \<Rightarrow> Inl e
      | Inr outs \<Rightarrow> Inr (m\<lparr>outputs := outs, forward_passes := forward_passes m + 1\<rparr>))"

definition get_outputs :: "mx_module \<Rightarrow> f32 ndarray list" where
  "get_outputs m = outputs m"

text \<open>\<open>NDArray.asnumpy()\<close> copies the array into a numpy array of the same floats.\<close>

definition asnumpy :: "f32 ndarray \<Rightarrow> f32 ndarray" where
  "asnumpy a = a"

section \<open>Loading the categories\<close>

text \<open>
  \<open>open('synset.txt', 'r')\<close> is a call into the file system: it raises \<open>IOError\<close> or gives
  the file, whose contents the loop then reads.
\<close>

definition loadCategories :: "env \<Rightarrow> error + string list" where
  "loadCategories E =
     (case fs E ''synset.txt'' of
        Inl e \<Rightarrow> Inl e
      | Inr synsetfile \<Rightarrow> Inr (synsets_loop (file_lines synsetfile) []))"

section \<open>Loading a model\<close>

text \<open>
  The local variables of \<open>loadModel\<close> at its \<open>return\<close>. The dictionary \<open>arg_params\<close> is
  the object that \<open>load_checkpoint\<close> returned, as the two assignments have left it.
\<close>

record loadModel_locals =
  l_sym :: symbol
  l_arg_params :: params
  l_aux_params :: params
  l_mod :: mx_module

definition loadModel_body :: "env \<Rightarrow> string \<Rightarrow> bool \<Rightarrow> error + loadModel_locals" where
  "loadModel_body E modelname gpu =
     (case load_checkpoint E modelname 0 of
        Inl e \<Rightarrow> Inl e
      | Inr (s, arg0, aux) \<Rightarrow>
          (let arg1 = arg0(''prob_label'' \<mapsto> nd_array_list [0]);
               arg2 = arg1(''softmax_label'' \<mapsto> nd_array_list [0]);
               mod0 = (if gpu then Module s (Gpu 0) else Module s default_context)
           in case module_bind E mod0 False [(''data'', [1, 3, 224, 224])] of
                Inl e \<Rightarrow> Inl e
              | Inr mod1 \<Rightarrow>
                  (case module_set_params E mod1 arg2 aux of
                     Inl e \<Rightarrow> Inl e
                   | Inr mod2 \<Rightarrow>
                       Inr \<lparr>l_sym = s, l_arg_params = arg2, l_aux_params = aux,
                            l_mod = mod2\<rparr>)))"

definition loadModel :: "env \<Rightarrow> string \<Rightarrow> bool \<Rightarrow> error + mx_module" where
  "loadModel E modelname gpu =
     (case loadModel_body E modelname gpu of Inl e \<Rightarrow> Inl e | Inr l \<Rightarrow> Inr (l_mod l))"

text \<open>The dictionary \<open>arg_params\<close> as \<open>loadModel\<close> leaves it.\<close>

definition loadModel_arg_params :: "env \<Rightarrow> string \<Rightarrow> bool \<Rightarrow> error + params" where
  "loadModel_arg_params E modelname gpu =
     (case loadModel_body E modelname gpu of Inl e \<Rightarrow> Inl e | Inr l \<Rightarrow> Inr (l_arg_params l))"

text \<open>
  The loading steps as the specification words them: load the checkpoint of the name,
  make a module on a given compute context, bind it, give it the parameters.
\<close>

definition load_steps :: "env \<Rightarrow> string \<Rightarrow> device \<Rightarrow> error + mx_module" where
  "load_steps E modelname c =
     (case load_checkpoint E modelname 0 of
        Inl e \<Rightarrow> Inl e
      | Inr (s, arg0, aux) \<Rightarrow>
          (case module_bind E (Module s c) False [(''data'', [1, 3, 224, 224])] of
             Inl e \<Rightarrow> Inl e
           | Inr m \<Rightarrow>
               module_set_params E m
                 (arg0(''prob_label'' \<mapsto> nd_array_list [0],
                       ''softmax_label'' \<mapsto> nd_array_list [0])) aux))"

section \<open>Preparing an image\<close>

text \<open>\<open>prepareNDArray\<close>; its \<open>print\<close> of the shape changes nothing that it returns.\<close>

definition prepareNDArray :: "env \<Rightarrow> string \<Rightarrow> error + real ndarray" where
  "prepareNDArray E filename =
     (case cvtColor_BGR2RGB (imread E filename) of
        Inl e \<Rightarrow> Inl e
      | Inr img1 \<Rightarrow>
          (case resize (interp E) img1 (224, 224) of
             Inl e \<Rightarrow> Inl e
           | Inr img2 \<Rightarrow>
               (case swapaxes img2 0 2 of
                  Inl e \<Rightarrow> Inl e
                | Inr img3 \<Rightarrow>
                    (case swapaxes img3 1 2 of
                       Inl e \<Rightarrow> Inl e
                     | Inr img4 \<Rightarrow> Inr (nd_array (newaxis img4))))))"

section \<open>Prediction\<close>

text \<open>\<open>xs[0:n]\<close> for a Python integer \<open>n\<close>: a negative \<open>n\<close> counts from the end.\<close>

definition slice_to :: "'a list \<Rightarrow> int \<Rightarrow> 'a list" where
  "slice_to xs n = (if 0 \<le> n then take (nat n) xs else take (length xs - nat (- n)) xs)"

text \<open>
  The loop \<open>for i in sortedprobindex[0:n]: topn.append((prob[i], categories[i]))\<close>. Both
  indexings raise \<open>IndexError\<close> out of range; \<open>prob[i]\<close> is evaluated first.
\<close>

fun topn_loop ::
  "f32 list \<Rightarrow> string list \<Rightarrow> nat list \<Rightarrow> (f32 \<times> string) list \<Rightarrow> error + (f32 \<times> string) list" where
  "topn_loop prob categories [] topn = Inr topn"
| "topn_loop prob categories (i # is) topn =
     (if i < length prob
      then (if i < length categories
            then topn_loop prob categories is (topn @ [(prob ! i, categories ! i)])
            else Inl IndexError)
      else Inl IndexError)"

text \<open>
  The indexing \<open>xs[i]\<close> of a list or of a one-dimensional array by an index that is
  not negative, as a call of its own: the loop above makes two of them in each round.
\<close>

definition getitem :: "'a list \<Rightarrow> nat \<Rightarrow> error + 'a" where
  "getitem xs i = (if i < length xs then Inr (xs ! i) else Inl IndexError)"

text \<open>
  The last lines of \<open>predict\<close>, from \<open>np.argsort(prob)[::-1]\<close> on, for a one-dimensional
  \<open>prob\<close>.
\<close>

definition select_topn ::
  "env \<Rightarrow> f32 list \<Rightarrow> string list \<Rightarrow> int \<Rightarrow> error + (f32 \<times> string) list" where
  "select_topn E prob categories n =
     (let sortedprobindex = rev (argsort E prob)
      in topn_loop prob categories (slice_to sortedprobindex n) [])"

text \<open>
  The same lines for the squeezed output as it is: a one-dimensional array is ranked as
  above, another array as the environment says.
\<close>

definition select_squeezed ::
  "env \<Rightarrow> f32 ndarray \<Rightarrow> string list \<Rightarrow> int \<Rightarrow> error + (f32 \<times> string) list" where
  "select_squeezed E prob categories n =
     (case as_vector prob of
        Some v \<Rightarrow> select_topn E v categories n
      | None \<Rightarrow> select_other E prob categories n)"

text \<open>
  \<open>predict\<close>. The module is an object that \<open>forward\<close> changes in place and that is still
  there when \<open>predict\<close> raises: the model returns it beside the result, after an error as
  well as after a return. The two \<open>print\<close> statements and the two readings of the clock
  change neither.
\<close>

definition predict ::
  "env \<Rightarrow> string \<Rightarrow> mx_module \<Rightarrow> string list \<Rightarrow> int \<Rightarrow>
     (error + (f32 \<times> string) list) \<times> mx_module" where
  "predict E filename model categories n =
     (case prepareNDArray E filename of
        Inl e \<Rightarrow> (Inl e, model)
      | Inr array \<Rightarrow>
          (case module_forward E model [array] of
             Inl e \<Rightarrow> (Inl e, model)
           | Inr model' \<Rightarrow>
               (case get_outputs model' of
                  [] \<Rightarrow> (Inl IndexError, model')
                | out # _ \<Rightarrow>
                    (let prob = squeeze (asnumpy out)
                     in (select_squeezed E prob categories n, model')))))"


section \<open>A small environment\<close>

text \<open>
  A concrete environment, on which the theorems below are instantiated: a label file of
  three lines, an image of one row and two pixels, nearest-neighbour interpolation, a
  checkpoint with one weight entry, a network of three classes and a stable \<open>argsort\<close>
  by insertion. A second environment has a network whose output holds a NaN.
\<close>

definition demo_image :: "uint8 ndarray" where
  "demo_image =
     \<lparr>shape = [1, 2, 3],
      item = (\<lambda>idx. case idx of [y, x, c] \<Rightarrow> of_nat (10 * x + c) | _ \<Rightarrow> 0)\<rparr>"

definition nearest :: interpolation where
  "nearest src dw dh idx =
     (case (shape src, idx) of
        ([h, w, c], [y, x, k]) \<Rightarrow> item src [y * h div dh, x * w div dw, k]
      | _ \<Rightarrow> 0)"

definition demo_prob :: "f32 list" where
  "demo_prob = [Val 0.2, Val 0.7, Val 0.1]"


definition row_output :: "f32 list \<Rightarrow> f32 ndarray" where
  "row_output row =
     \<lparr>shape = [1, length row],
      item = (\<lambda>idx. case idx of [b, j] \<Rightarrow> row ! j | _ \<Rightarrow> NaN)\<rparr>"

definition demo_output :: "f32 ndarray" where
  "demo_output = row_output demo_prob"

fun insort_index :: "f32 list \<Rightarrow> nat \<Rightarrow> nat list \<Rightarrow> nat list" where
  "insort_index prob i [] = [i]"
| "insort_index prob i (j # js) =
     (if sort_le (prob ! i) (prob ! j) then i # j # js else j # insort_index prob i js)"

definition stable_argsort :: "f32 list \<Rightarrow> nat list" where
  "stable_argsort prob = foldr (insort_index prob) [0..<length prob] []"

definition demo_arg_params :: params where
  "demo_arg_params = [''fc8_bias'' \<mapsto> nd_array_list [1, 2]]"

definition demo_fs :: "string \<Rightarrow> error + string" where
  "demo_fs name =
     (if name = ''synset.txt'' then Inr ''n01 cat\<newline>n02 dog  \<newline>n03 fox''
      else Inl (IOError name))"

definition demo_env :: env where
  "demo_env =
     \<lparr>fs = demo_fs,
      imread = (\<lambda>name. if name = ''violin.jpg'' then Some demo_image else None),
      interp = nearest,
      load_checkpoint =
        (\<lambda>name epoch. if name = ''vgg16'' then Inr (''{}'', demo_arg_params, Map.empty)
                       else Inl (MXNetError name)),
      bind_error = (\<lambda>m ft shapes. None),
      set_params_error = (\<lambda>m arg aux. None),
      run_net = (\<lambda>m data. Inr [demo_output]),
      argsort = stable_argsort,
      select_other = (\<lambda>prob categories n. Inl IndexError)\<rparr>"


definition thousand_env :: env where
  "thousand_env = demo_env\<lparr>fs := (\<lambda>name. Inr (concat (replicate 1000 ''n0 x\<newline>'')))\<rparr>"

definition demo_categories :: "string list" where
  "demo_categories = [''n01 cat'', ''n02 dog'', ''n03 fox'']"

definition demo_module :: "device \<Rightarrow> mx_module" where
  "demo_module c =
     \<lparr>sym = ''{}'', ctx = c, binded = True, for_training = False,
      data_shapes = [(''data'', [1, 3, 224, 224])], params_initialized = True,
      arg_params = demo_arg_params(''prob_label'' \<mapsto> nd_array_list [0],
                                   ''softmax_label'' \<mapsto> nd_array_list [0]),
      aux_params = Map.empty, outputs = [], forward_passes = 0\<rparr>"

definition demo_locals :: "device \<Rightarrow> loadModel_locals" where
  "demo_locals c =
     \<lparr>l_sym = ''{}'', l_arg_params = arg_params (demo_module c), l_aux_params = Map.empty,
      l_mod = demo_module c\<rparr>"

section \<open>Lemmas on the label file\<close>

lemma synsets_loop_map: "synsets_loop ls acc = acc @ map rstrip ls"
  by (induction ls arbitrary: acc) simp_all

lemma file_lines_Nil_iff: "file_lines s = [] \<longleftrightarrow> s = []"
  by (cases s) (simp_all split: list.splits)

lemma concat_file_lines: "concat (file_lines s) = s"
proof (induction s)
  case Nil
  show ?case by simp
next
  case (Cons c cs)
  show ?case
  proof (cases "file_lines cs")
    case Nil
    then have "cs = []" by (simp add: file_lines_Nil_iff)
    with Nil show ?thesis by simp
  next
    case (Cons l ls)
    with Cons.IH show ?thesis by auto
  qed
qed

lemma length_file_lines: "length (file_lines s) = line_count s"
proof (induction s)
  case Nil
  show ?case by (simp add: line_count_def)
next
  case (Cons c cs)
  show ?case
  proof (cases "cs = []")
    case True
    then show ?thesis by (simp add: line_count_def)
  next
    case False
    then obtain l ls where l: "file_lines cs = l # ls"
      by (cases "file_lines cs") (simp_all add: file_lines_Nil_iff)
    with Cons False show ?thesis
      by (simp add: line_count_def)
  qed
qed

lemma file_lines_shape:
  "l \<in> set (file_lines s) \<Longrightarrow> l \<noteq> [] \<and> newline \<notin> set (butlast l)"
proof (induction s arbitrary: l)
  case Nil
  then show ?case by simp
next
  case (Cons c cs)
  show ?case
  proof (cases "c = newline")
    case True
    with Cons show ?thesis by auto
  next
    case False
    show ?thesis
    proof (cases "file_lines cs")
      case Nil
      with Cons.prems False show ?thesis by simp
    next
      case (Cons l' ls)
      have l': "l' \<noteq> [] \<and> newline \<notin> set (butlast l')"
        using Cons.IH [of l'] Cons by simp
      from Cons.prems False Cons have "l = c # l' \<or> l \<in> set ls" by simp
      then show ?thesis
      proof
        assume "l = c # l'"
        with l' False show ?thesis by simp
      next
        assume "l \<in> set ls"
        with Cons.IH [of l] Cons show ?thesis by simp
      qed
    qed
  qed
qed

lemma rstrip_decomp: "\<exists>ws. l = rstrip l @ ws \<and> (\<forall>c \<in> set ws. isspace c)"
proof -
  have "rev l = takeWhile isspace (rev l) @ dropWhile isspace (rev l)"
    by simp
  then have "l = rev (dropWhile isspace (rev l)) @ rev (takeWhile isspace (rev l))"
    by (metis rev_append rev_rev_ident)
  moreover have "\<forall>c \<in> set (rev (takeWhile isspace (rev l))). isspace c"
    by (auto dest: set_takeWhileD)
  ultimately show ?thesis
    unfolding rstrip_def by blast
qed

lemma rstrip_last: "rstrip l \<noteq> [] \<Longrightarrow> \<not> isspace (last (rstrip l))"
proof -
  assume ne: "rstrip l \<noteq> []"
  then have d: "dropWhile isspace (rev l) \<noteq> []"
    by (simp add: rstrip_def)
  then have "\<not> isspace (hd (dropWhile isspace (rev l)))"
    by (rule hd_dropWhile)
  with d show ?thesis
    by (simp add: rstrip_def last_rev)
qed

lemma file_lines_newline_end:
  "Suc i < length (file_lines s) \<Longrightarrow> last (file_lines s ! i) = newline"
proof (induction s arbitrary: i)
  case Nil
  then show ?case by simp
next
  case (Cons c cs)
  show ?case
  proof (cases "file_lines cs")
    case Nil
    with Cons.prems show ?thesis by (simp split: if_splits)
  next
    case (Cons l ls)
    have lne: "l \<noteq> []"
      using file_lines_shape [of l cs] Cons by simp
    show ?thesis
    proof (cases "c = newline")
      case True
      with Cons.prems Cons.IH show ?thesis by (cases i) simp_all
    next
      case False
      show ?thesis
      proof (cases i)
        case 0
        have "last l = newline"
          using Cons.IH [of 0] Cons.prems Cons False 0 by simp
        with 0 False Cons lne show ?thesis by simp
      next
        case (Suc j)
        have "last (file_lines cs ! i) = newline"
          using Cons.IH [of i] Cons.prems Cons False by simp
        with Suc False Cons show ?thesis by simp
      qed
    qed
  qed
qed

lemma demo_categories_eval: "loadCategories demo_env = Inr demo_categories"
  by (simp add: loadCategories_def demo_env_def demo_fs_def demo_categories_def rstrip_def isspace_def
      newline_def)

lemma line_count_replicate:
  "line_count (concat (replicate k ''n0 x\<newline>'')) = k"
proof (cases k)
  case 0
  then show ?thesis by (simp add: line_count_def)
next
  case (Suc j)
  have c: "count_list (concat (replicate m ''n0 x\<newline>'')) newline = m" for m
    by (induction m) (simp_all add: newline_def)
  have "replicate (Suc j) ''n0 x\<newline>'' = replicate j ''n0 x\<newline>'' @ [''n0 x\<newline>'']"
    by (simp add: replicate_append_same)
  then have "concat (replicate k ''n0 x\<newline>'') = concat (replicate j ''n0 x\<newline>'') @ ''n0 x\<newline>''"
    using Suc by simp
  then have "last (concat (replicate k ''n0 x\<newline>'')) = newline"
    by (simp add: newline_def)
  with c [of k] Suc show ?thesis
    by (simp add: line_count_def)
qed

section \<open>Claims on the label file\<close>

text \<open>
  Claim C3. \<open>loadCategories\<close> loads the newline-delimited file \<open>synset.txt\<close> into an
  ordered list: whatever the contents of the file, the returned list has one element per
  line of the file, and element \<open>i\<close> comes from line \<open>i\<close>. The lines are the pieces of
  the contents cut after each newline: their concatenation is the file, none is empty,
  a newline occurs only as the last byte of a line, and every line but the last ends
  with one. Their number is the number of newlines, plus one when the file ends without
  a newline.
\<close>

theorem loadCategories_lines:
  assumes "fs E ''synset.txt'' = Inr contents"
  shows "\<exists>labels. loadCategories E = Inr labels
           \<and> length labels = length (file_lines contents)
           \<and> length labels = line_count contents
           \<and> (\<forall>i < length labels. labels ! i = rstrip (file_lines contents ! i))
           \<and> concat (file_lines contents) = contents
           \<and> (\<forall>l \<in> set (file_lines contents). l \<noteq> [] \<and> newline \<notin> set (butlast l))
           \<and> (\<forall>i. Suc i < length (file_lines contents) \<longrightarrow> last (file_lines contents ! i) = newline)"
proof -
  have "loadCategories E = Inr (map rstrip (file_lines contents))"
    using assms by (simp add: loadCategories_def synsets_loop_map)
  moreover have "length (map rstrip (file_lines contents)) = line_count contents"
    by (simp add: length_file_lines)
  ultimately show ?thesis
    using file_lines_shape [of _ contents] file_lines_newline_end [of _ contents]
    by (simp add: concat_file_lines)
qed

theorem loadCategories_lines_witness:
  "fs demo_env ''synset.txt'' = Inr ''n01 cat\<newline>n02 dog  \<newline>n03 fox''
   \<and> loadCategories demo_env = Inr demo_categories
   \<and> length demo_categories = line_count ''n01 cat\<newline>n02 dog  \<newline>n03 fox''"
proof -
  have h: "fs demo_env ''synset.txt'' = Inr ''n01 cat\<newline>n02 dog  \<newline>n03 fox''"
    by (simp add: demo_env_def demo_fs_def)
  from loadCategories_lines [OF h] demo_categories_eval h show ?thesis
    by auto
qed

text \<open>
  Claim C10. Every label returned by \<open>loadCategories\<close> is the line of the same position
  with all its trailing whitespace removed, the newline that ends the line included:
  the line is the label followed by whitespace only, and the label is empty or ends
  with a byte that is not whitespace.
\<close>

theorem loadCategories_rstrip:
  assumes "fs E ''synset.txt'' = Inr contents"
    and "loadCategories E = Inr labels"
    and "i < length labels"
  shows "labels ! i = rstrip (file_lines contents ! i)
         \<and> (\<exists>ws. file_lines contents ! i = labels ! i @ ws \<and> (\<forall>c \<in> set ws. isspace c))
         \<and> (labels ! i = [] \<or> \<not> isspace (last (labels ! i)))"
proof -
  from assms(1,2) have labels: "labels = map rstrip (file_lines contents)"
    by (simp add: loadCategories_def synsets_loop_map)
  with assms(3) have eq: "labels ! i = rstrip (file_lines contents ! i)"
    by simp
  show ?thesis
    unfolding eq using rstrip_decomp [of "file_lines contents ! i"]
      rstrip_last [of "file_lines contents ! i"] by blast
qed

theorem loadCategories_rstrip_witness:
  "fs demo_env ''synset.txt'' = Inr ''n01 cat\<newline>n02 dog  \<newline>n03 fox''
   \<and> loadCategories demo_env = Inr demo_categories
   \<and> (1::nat) < length demo_categories
   \<and> demo_categories ! 1 = rstrip (file_lines ''n01 cat\<newline>n02 dog  \<newline>n03 fox'' ! 1)
   \<and> file_lines ''n01 cat\<newline>n02 dog  \<newline>n03 fox'' ! 1 = ''n02 dog  \<newline>''
   \<and> demo_categories ! 1 = ''n02 dog''
   \<and> \<not> isspace (last (demo_categories ! 1))"
proof -
  have h: "fs demo_env ''synset.txt'' = Inr ''n01 cat\<newline>n02 dog  \<newline>n03 fox''"
    by (simp add: demo_env_def demo_fs_def)
  have l: "(1::nat) < length demo_categories"
    by (simp add: demo_categories_def)
  have f: "file_lines ''n01 cat\<newline>n02 dog  \<newline>n03 fox'' ! 1 = ''n02 dog  \<newline>''"
    by (simp add: newline_def)
  have d: "demo_categories ! 1 = ''n02 dog''"
    by (simp add: demo_categories_def)
  from loadCategories_rstrip [OF h demo_categories_eval l] h demo_categories_eval l f d
  show ?thesis by (simp add: isspace_def)
qed

text \<open>
  Claim C4, as stated: the list returned by \<open>loadCategories\<close> has exactly 1000 entries.
  The function does not count: on a file of three lines it returns three labels.
\<close>

theorem loadCategories_count_counterexample:
  "loadCategories demo_env = Inr demo_categories \<and> length demo_categories \<noteq> 1000"
  by (simp add: loadCategories_def demo_env_def demo_fs_def demo_categories_def rstrip_def isspace_def
      newline_def)

text \<open>
  Claim C4, amended: the list returned by \<open>loadCategories\<close> has exactly as many entries
  as the file \<open>synset.txt\<close> has lines; it has 1000 entries exactly when the file has
  1000 lines.
\<close>

theorem loadCategories_count:
  assumes "fs E ''synset.txt'' = Inr contents"
  shows "\<exists>labels. loadCategories E = Inr labels
           \<and> length labels = line_count contents
           \<and> (length labels = 1000 \<longleftrightarrow> line_count contents = 1000)"
  using assms by (simp add: loadCategories_def synsets_loop_map length_file_lines)

theorem loadCategories_count_witness:
  "fs thousand_env ''synset.txt'' = Inr (concat (replicate 1000 ''n0 x\<newline>''))
   \<and> map_sum id length (loadCategories thousand_env) = Inr 1000"
proof -
  have h: "fs thousand_env ''synset.txt'' = Inr (concat (replicate 1000 ''n0 x\<newline>''))"
    by (simp add: thousand_env_def)
  from loadCategories_count [OF h] h show ?thesis
    by (auto simp: line_count_replicate)
qed

section \<open>Lemmas on image preparation\<close>

lemma cvtColor_decoded:
  assumes "shape img = [h, w, 3]" "0 < h" "0 < w"
  shows "cvtColor_BGR2RGB (Some img) =
           Inr \<lparr>shape = [h, w, 3], item = (\<lambda>idx. item img (bgr2rgb_index idx))\<rparr>"
  using assms by (simp add: cvtColor_BGR2RGB_def)

lemma prepareNDArray_of_rgb:
  assumes "cvtColor_BGR2RGB (imread E filename) = Inr rgb" "shape rgb = [h, w, c]"
    "0 < h" "0 < w"
  shows "prepareNDArray E filename =
           Inr \<lparr>shape = [1, c, 224, 224],
                item = (\<lambda>idx. real (unat (interp E rgb 224 224
                          (swap_list 0 2 (swap_list 1 2 (tl idx))))))\<rparr>"
  using assms
  by (simp add: prepareNDArray_def resize_def swapaxes_def swap_list_def newaxis_def
      nd_array_def)

lemma demo_prepare:
  "\<exists>array. prepareNDArray demo_env ''violin.jpg'' = Inr array"
  by (simp add: prepareNDArray_def demo_env_def demo_image_def cvtColor_BGR2RGB_def
      resize_def swapaxes_def swap_list_def)

lemma demo_pixel:
  "map_sum id (\<lambda>a. item a [0, 2, 5, 200]) (prepareNDArray demo_env ''violin.jpg'') = Inr 10"
  by (simp add: prepareNDArray_def demo_env_def demo_image_def cvtColor_BGR2RGB_def
      resize_def swapaxes_def swap_list_def newaxis_def nd_array_def nearest_def
      bgr2rgb_index_def)

section \<open>Claim on image preparation\<close>

text \<open>
  Claim C2. For every image file that \<open>cv2.imread\<close> decodes, to an array of shape
  (height, width, 3) with positive height and width, \<open>prepareNDArray\<close> converts the
  colour order from BGR to RGB (channel \<open>c\<close> of the converted image is channel \<open>2 - c\<close> of
  the decoded one), resizes to 224 x 224, moves the channel axis in front of the two
  image axes (element \<open>[0, c, y, x]\<close> of the result is element \<open>[y, x, c]\<close> of the resized
  image) and adds a leading axis: the returned tensor has shape (1, 3, 224, 224) whatever
  the height and width of the image are.
\<close>

theorem prepareNDArray_shape:
  assumes "imread E filename = Some img"
    and "shape img = [h, w, 3]"
    and "0 < h" and "0 < w"
  shows "\<exists>rgb arr.
           cvtColor_BGR2RGB (imread E filename) = Inr rgb
           \<and> shape rgb = [h, w, 3]
           \<and> (\<forall>y x c. c < 3 \<longrightarrow> item rgb [y, x, c] = item img [y, x, 2 - c])
           \<and> prepareNDArray E filename = Inr arr
           \<and> shape arr = [1, 3, 224, 224]
           \<and> (\<forall>c y x. item arr [0, c, y, x] = real (unat (interp E rgb 224 224 [y, x, c])))"
proof -
  let ?rgb = "\<lparr>shape = [h, w, 3], item = (\<lambda>idx. item img (bgr2rgb_index idx))\<rparr>"
  have rgb: "cvtColor_BGR2RGB (imread E filename) = Inr ?rgb"
    using assms cvtColor_decoded by simp
  have sh: "shape ?rgb = [h, w, 3]" by simp
  have px: "\<forall>y x c. c < 3 \<longrightarrow> item ?rgb [y, x, c] = item img [y, x, 2 - c]"
    by (simp add: bgr2rgb_index_def)
  note arr = prepareNDArray_of_rgb [OF rgb sh assms(3,4)]
  show ?thesis
    apply (rule exI [of _ ?rgb])
    apply (rule exI)
    apply (intro conjI)
         apply (rule rgb)
        apply (rule sh)
       apply (rule px)
      apply (rule arr)
     apply simp
    apply (simp add: swap_list_def)
    done
qed

theorem prepareNDArray_shape_witness:
  "imread demo_env ''violin.jpg'' = Some demo_image
   \<and> shape demo_image = [1, 2, 3]
   \<and> map_sum id shape (prepareNDArray demo_env ''violin.jpg'') = Inr [1, 3, 224, 224]
   \<and> map_sum id (\<lambda>a. item a [0, 2, 5, 200]) (prepareNDArray demo_env ''violin.jpg'') = Inr 10"
proof -
  have a: "imread demo_env ''violin.jpg'' = Some demo_image"
    by (simp add: demo_env_def)
  have b: "shape demo_image = [1, 2, 3]"
    by (simp add: demo_image_def)
  have c: "(0::nat) < 1" and d: "(0::nat) < 2" by simp_all
  from prepareNDArray_shape [OF a b c d] a b demo_pixel show ?thesis
    by auto
qed

section \<open>Lemmas on model loading\<close>

lemma loadModel_body_Inr:
  assumes "loadModel_body E modelname gpu = Inr l"
  obtains s arg0 aux where
    "load_checkpoint E modelname 0 = Inr (s, arg0, aux)"
    "l_sym l = s"
    "l_arg_params l = arg0(''prob_label'' \<mapsto> nd_array_list [0], ''softmax_label'' \<mapsto> nd_array_list [0])"
    "l_aux_params l = aux"
  using assms
  by (auto simp: loadModel_body_def Let_def split: sum.splits prod.splits)

lemma demo_loadModel_body:
  "loadModel_body demo_env ''vgg16'' gpu = Inr (demo_locals (if gpu then Gpu 0 else Cpu 0))"
  by (simp add: loadModel_body_def module_bind_def module_set_params_def
      demo_env_def Let_def Module_def demo_module_def demo_locals_def default_context_def)

lemma demo_loadModel: "loadModel demo_env ''vgg16'' gpu = Inr (demo_module (if gpu then Gpu 0 else Cpu 0))"
  by (simp add: loadModel_def loadModel_body_def module_bind_def module_set_params_def
      demo_env_def Let_def Module_def demo_module_def default_context_def)

section \<open>Claims on model loading\<close>

text \<open>
  Claim C5, as stated: after \<open>loadModel\<close> the set of weight entries that
  \<open>load_checkpoint\<close> loaded is unchanged, no entry being added, removed or overwritten.
  \<open>loadModel\<close> assigns to two keys of that dictionary: on a checkpoint with the single
  entry \<open>fc8_bias\<close> the dictionary is another one afterwards.
\<close>

theorem loadModel_arg_params_counterexample:
  "load_checkpoint demo_env ''vgg16'' 0 = Inr (''{}'', demo_arg_params, Map.empty)
   \<and> loadModel_arg_params demo_env ''vgg16'' False \<noteq> Inr demo_arg_params"
proof -
  have a: "load_checkpoint demo_env ''vgg16'' 0 = Inr (''{}'', demo_arg_params, Map.empty)"
    by (simp add: demo_env_def)
  have b: "loadModel_arg_params demo_env ''vgg16'' False = Inr (arg_params (demo_module (Cpu 0)))"
    by (simp add: loadModel_arg_params_def demo_loadModel_body demo_locals_def)
  have "arg_params (demo_module (Cpu 0)) ''prob_label'' \<noteq> demo_arg_params ''prob_label''"
    by (simp add: demo_module_def demo_arg_params_def)
  then have "arg_params (demo_module (Cpu 0)) \<noteq> demo_arg_params"
    by (rule contrapos_nn) simp
  with a b show ?thesis by simp
qed

text \<open>
  Claim C5, amended: after \<open>loadModel\<close> completes, every weight entry that
  \<open>load_checkpoint\<close> loaded under a name other than \<open>prob_label\<close> and \<open>softmax_label\<close> is
  unchanged and no entry is removed; the entries \<open>prob_label\<close> and \<open>softmax_label\<close> are
  set, added or overwritten, to the one-element array \<open>[0]\<close>. The auxiliary entries and
  the network description are unchanged.
\<close>

theorem loadModel_arg_params_frame:
  assumes "load_checkpoint E modelname 0 = Inr (s, arg0, aux)"
    and "loadModel_body E modelname gpu = Inr l"
  shows "l_arg_params l ''prob_label'' = Some (nd_array_list [0])
         \<and> l_arg_params l ''softmax_label'' = Some (nd_array_list [0])
         \<and> (\<forall>k. k \<noteq> ''prob_label'' \<longrightarrow> k \<noteq> ''softmax_label'' \<longrightarrow> l_arg_params l k = arg0 k)
         \<and> dom (l_arg_params l) = dom arg0 \<union> {''prob_label'', ''softmax_label''}
         \<and> l_aux_params l = aux
         \<and> l_sym l = s
         \<and> loadModel_arg_params E modelname gpu = Inr (l_arg_params l)"
proof -
  from assms(2) obtain s' arg0' aux' where
    c: "load_checkpoint E modelname 0 = Inr (s', arg0', aux')" and
    l: "l_sym l = s'"
       "l_arg_params l = arg0'(''prob_label'' \<mapsto> nd_array_list [0], ''softmax_label'' \<mapsto> nd_array_list [0])"
       "l_aux_params l = aux'"
    by (rule loadModel_body_Inr)
  from c assms(1) have "s' = s" "arg0' = arg0" "aux' = aux" by simp_all
  with l assms(2) show ?thesis
    by (auto simp: loadModel_arg_params_def)
qed

theorem loadModel_arg_params_frame_witness:
  "load_checkpoint demo_env ''vgg16'' 0 = Inr (''{}'', demo_arg_params, Map.empty)
   \<and> loadModel_body demo_env ''vgg16'' True = Inr (demo_locals (Gpu 0))
   \<and> l_arg_params (demo_locals (Gpu 0)) ''fc8_bias'' = Some (nd_array_list [1, 2])
   \<and> l_arg_params (demo_locals (Gpu 0)) ''prob_label'' = Some (nd_array_list [0])
   \<and> l_aux_params (demo_locals (Gpu 0)) = Map.empty"
proof -
  have a: "load_checkpoint demo_env ''vgg16'' 0 = Inr (''{}'', demo_arg_params, Map.empty)"
    by (simp add: demo_env_def)
  have b: "loadModel_body demo_env ''vgg16'' True = Inr (demo_locals (Gpu 0))"
    by (simp add: demo_loadModel_body)
  have c: "demo_arg_params ''fc8_bias'' = Some (nd_array_list [1, 2])"
    by (simp add: demo_arg_params_def)
  from loadModel_arg_params_frame [OF a b] a b c show ?thesis
    by simp
qed

text \<open>
  Claim C8. \<open>loadModel\<close> takes a model name and one optional flag. With the flag set and
  with it unset it performs the same steps on the same checkpoint (epoch 0 of the name):
  the steps of \<open>load_steps\<close>, on GPU device 0 when the flag is set and on the framework's
  default context otherwise. When both loads succeed the two modules differ in the
  compute context only.
\<close>

theorem loadModel_device_flag:
  "loadModel E modelname True = load_steps E modelname (Gpu 0)
   \<and> loadModel E modelname False = load_steps E modelname default_context
   \<and> (\<forall>m1 m2. loadModel E modelname True = Inr m1 \<longrightarrow> loadModel E modelname False = Inr m2
        \<longrightarrow> m1 = m2\<lparr>ctx := Gpu 0\<rparr> \<and> ctx m2 = default_context)"
proof (intro conjI allI impI)
  show "loadModel E modelname True = load_steps E modelname (Gpu 0)"
    by (simp add: loadModel_def loadModel_body_def load_steps_def Let_def
        split: sum.splits prod.splits)
  show "loadModel E modelname False = load_steps E modelname default_context"
    by (simp add: loadModel_def loadModel_body_def load_steps_def Let_def
        split: sum.splits prod.splits)
next
  fix m1 m2
  assume 1: "loadModel E modelname True = Inr m1" and 2: "loadModel E modelname False = Inr m2"
  from 1 2 show "m1 = m2\<lparr>ctx := Gpu 0\<rparr>"
    by (auto simp: loadModel_def loadModel_body_def Let_def module_bind_def
        module_set_params_def Module_def split: sum.splits prod.splits option.splits)
  from 2 show "ctx m2 = default_context"
    by (auto simp: loadModel_def loadModel_body_def Let_def module_bind_def
        module_set_params_def Module_def split: sum.splits prod.splits option.splits)
qed

theorem loadModel_device_flag_witness:
  "loadModel demo_env ''vgg16'' True = Inr (demo_module (Gpu 0))
   \<and> loadModel demo_env ''vgg16'' False = Inr (demo_module (Cpu 0))
   \<and> load_steps demo_env ''vgg16'' (Gpu 0) = Inr (demo_module (Gpu 0))
   \<and> demo_module (Gpu 0) = (demo_module (Cpu 0))\<lparr>ctx := Gpu 0\<rparr>"
proof -
  note t = loadModel_device_flag [of demo_env "''vgg16''"]
  have a: "loadModel demo_env ''vgg16'' True = Inr (demo_module (Gpu 0))"
    by (simp add: demo_loadModel)
  have b: "loadModel demo_env ''vgg16'' False = Inr (demo_module (Cpu 0))"
    by (simp add: demo_loadModel)
  have "load_steps demo_env ''vgg16'' (Gpu 0) = loadModel demo_env ''vgg16'' True"
    by (rule t [THEN conjunct1, symmetric])
  then have c: "load_steps demo_env ''vgg16'' (Gpu 0) = Inr (demo_module (Gpu 0))"
    by (simp only: a)
  from t a b have d: "demo_module (Gpu 0) = (demo_module (Cpu 0))\<lparr>ctx := Gpu 0\<rparr>"
    by blast
  from a b c d show ?thesis by blast
qed

section \<open>Lemmas on prediction\<close>


lemma topn_loop_calls:
  "topn_loop prob categories (i # idxs) acc =
     (case getitem prob i of
        Inl e \<Rightarrow> Inl e
      | Inr p \<Rightarrow>
          (case getitem categories i of
             Inl e \<Rightarrow> Inl e
           | Inr c \<Rightarrow> topn_loop prob categories idxs (acc @ [(p, c)])))"
  by (simp add: getitem_def)










lemma squeeze_shape: "shape (squeeze a) = filter (\<lambda>d. d \<noteq> 1) (shape a)"
  by (simp add: squeeze_def)

lemma squeeze_row:
  assumes "shape out = [1, k]" "k \<noteq> 1"
  shows "shape (squeeze out) = [k]"
    and "as_vector (squeeze out) = Some (map (\<lambda>j. item out [0, j]) [0..<k])"
  using assms by (simp_all add: squeeze_def as_vector_def)

lemma row_output_vector:
  assumes "length row \<noteq> 1"
  shows "as_vector (squeeze (row_output row)) = Some row"
proof -
  have "shape (row_output row) = [1, length row]"
    by (simp add: row_output_def)
  from squeeze_row(2) [OF this assms]
  have "as_vector (squeeze (row_output row)) =
          Some (map (\<lambda>j. item (row_output row) [0, j]) [0..<length row])" .
  also have "map (\<lambda>j. item (row_output row) [0, j]) [0..<length row] = map (\<lambda>j. row ! j) [0..<length row]"
    by (simp add: row_output_def)
  also have "\<dots> = row" by (rule map_nth)
  finally show ?thesis .
qed

lemma demo_argsort: "argsort demo_env demo_prob = [2, 0, 1]"
  by (simp add: demo_env_def stable_argsort_def demo_prob_def sort_le_def)



lemma demo_vector: "as_vector (squeeze demo_output) = Some demo_prob"
  unfolding demo_output_def by (rule row_output_vector) (simp add: demo_prob_def)



lemma demo_missing:
  "prepareNDArray demo_env ''missing.jpg'' = Inl (CvError ''cvtColor'')"
  by (simp add: prepareNDArray_def demo_env_def cvtColor_BGR2RGB_def)

lemma demo_select:
  "select_topn demo_env demo_prob demo_categories 2 =
     Inr [(Val 0.7, ''n02 dog''), (Val 0.2, ''n01 cat'')]"
  by (simp add: select_topn_def demo_argsort slice_to_def)
     (simp add: demo_prob_def demo_categories_def)



lemma demo_predict:
  "predict demo_env ''violin.jpg'' (demo_module c) categories n =
     (select_topn demo_env demo_prob categories n,
      (demo_module c)\<lparr>outputs := [demo_output], forward_passes := 1\<rparr>)"
proof -
  obtain array where a: "prepareNDArray demo_env ''violin.jpg'' = Inr array"
    using demo_prepare by blast
  have f: "module_forward demo_env (demo_module c) [array] =
             Inr ((demo_module c)\<lparr>outputs := [demo_output], forward_passes := 1\<rparr>)"
    by (simp add: module_forward_def demo_env_def demo_module_def)
  show ?thesis
    by (simp add: predict_def asnumpy_def a f get_outputs_def select_squeezed_def demo_vector)
qed


lemma demo_predict_missing:
  "predict demo_env ''missing.jpg'' model categories n = (Inl (CvError ''cvtColor''), model)"
  by (simp add: predict_def demo_missing)



section \<open>Claims on prediction\<close>






text \<open>
  Claim C6, as stated: in every invocation of \<open>predict\<close> exactly one forward pass is
  run, and the vector extracted is the first output squeezed to one dimension. On a file
  that \<open>cv2.imread\<close> cannot decode, \<open>cv2.cvtColor\<close> raises before \<open>forward\<close> is reached:
  the module is left as it was, no pass has run. And an output of shape (1, 1) is
  squeezed to an array without any dimension.
\<close>

theorem predict_forward_pass_counterexample:
  "predict demo_env ''missing.jpg'' (demo_module (Cpu 0)) demo_categories 2 =
     (Inl (CvError ''cvtColor''), demo_module (Cpu 0))
   \<and> forward_passes (demo_module (Cpu 0)) = 0
   \<and> shape (row_output [Val 1]) = [1, 1]
   \<and> shape (squeeze (row_output [Val 1])) = []"
  by (simp add: demo_predict_missing demo_module_def row_output_def squeeze_def)

text \<open>
  Claim C6, amended: in every invocation of \<open>predict\<close> in which the image is prepared
  and the forward call does not raise, hence in every invocation that returns, exactly
  one forward pass of the model is run; when the preparation or the forward call
  raises, the error is raised and no pass has run. The array that is ranked is the first
  element of the outputs of that pass with every axis of length one removed
  (\<open>np.squeeze\<close>); for an output of shape (1, k) with \<open>k \<noteq> 1\<close> it is the
  one-dimensional array of the \<open>k\<close> elements of row 0. Without any output the indexing
  \<open>[0]\<close> raises \<open>IndexError\<close>.
\<close>

theorem predict_one_forward_pass:
  assumes "predict E filename model categories n = (r, model')"
  shows "(\<forall>e. prepareNDArray E filename = Inl e \<longrightarrow> r = Inl e \<and> model' = model)
         \<and> (\<forall>array e. prepareNDArray E filename = Inr array \<longrightarrow>
               run_net E model [array] = Inl e \<longrightarrow> r = Inl e \<and> model' = model)
         \<and> (\<forall>array outs. prepareNDArray E filename = Inr array \<longrightarrow>
               run_net E model [array] = Inr outs \<longrightarrow>
                 model' = model\<lparr>outputs := outs, forward_passes := forward_passes model + 1\<rparr>
                 \<and> forward_passes model' = forward_passes model + 1
                 \<and> get_outputs model' = outs
                 \<and> (outs = [] \<longrightarrow> r = Inl IndexError)
                 \<and> (\<forall>out rest. outs = out # rest \<longrightarrow>
                       r = select_squeezed E (squeeze out) categories n
                       \<and> shape (squeeze out) = filter (\<lambda>d. d \<noteq> 1) (shape out)
                       \<and> (\<forall>k. shape out = [1, k] \<longrightarrow> k \<noteq> 1 \<longrightarrow>
                             shape (squeeze out) = [k]
                             \<and> r = select_topn E (map (\<lambda>j. item out [0, j]) [0..<k])
                                     categories n)))
         \<and> (\<forall>topn. r = Inr topn \<longrightarrow> forward_passes model' = forward_passes model + 1)"
proof (intro conjI allI impI)
  fix e
  assume "prepareNDArray E filename = Inl e"
  with assms show "r = Inl e" and "model' = model"
    by (simp_all add: predict_def)
next
  fix array e
  assume "prepareNDArray E filename = Inr array" "run_net E model [array] = Inl e"
  with assms show "r = Inl e" and "model' = model"
    by (simp_all add: predict_def module_forward_def)
next
  fix array outs
  assume a: "prepareNDArray E filename = Inr array" and r: "run_net E model [array] = Inr outs"
  let ?m = "model\<lparr>outputs := outs, forward_passes := forward_passes model + 1\<rparr>"
  have f: "module_forward E model [array] = Inr ?m"
    using r by (simp add: module_forward_def)
  from assms a f show m: "model' = ?m"
    by (simp add: predict_def Let_def split: list.splits)
  then show "forward_passes model' = forward_passes model + 1" by simp
  from m show g: "get_outputs model' = outs" by (simp add: get_outputs_def)
  {
    assume "outs = []"
    with assms a f show "r = Inl IndexError"
      by (simp add: predict_def get_outputs_def)
  }
  {
    fix out rest
    assume o: "outs = out # rest"
    with assms a f show s: "r = select_squeezed E (squeeze out) categories n"
      by (simp add: predict_def get_outputs_def asnumpy_def)
    show "shape (squeeze out) = filter (\<lambda>d. d \<noteq> 1) (shape out)"
      by (rule squeeze_shape)
    {
      fix k
      assume k: "shape out = [1, k]" "k \<noteq> 1"
      from squeeze_row(1) [OF k] show "shape (squeeze out) = [k]" .
      from squeeze_row(2) [OF k] s
      show "r = select_topn E (map (\<lambda>j. item out [0, j]) [0..<k]) categories n"
        by (simp add: select_squeezed_def)
    }
  }
next
  fix topn
  assume t: "r = Inr topn"
  from assms t obtain array where a: "prepareNDArray E filename = Inr array"
    by (cases "prepareNDArray E filename") (simp_all add: predict_def)
  from assms t a obtain m1 where f: "module_forward E model [array] = Inr m1"
    by (cases "module_forward E model [array]") (simp_all add: predict_def)
  from f have m1: "forward_passes m1 = forward_passes model + 1"
    by (auto simp: module_forward_def split: sum.splits)
  from assms a f have "model' = m1"
    by (simp add: predict_def Let_def split: list.splits)
  with m1 show "forward_passes model' = forward_passes model + 1" by simp
qed

theorem predict_one_forward_pass_witness:
  "predict demo_env ''violin.jpg'' (demo_module (Cpu 0)) demo_categories 2 =
     (Inr [(Val 0.7, ''n02 dog''), (Val 0.2, ''n01 cat'')],
      (demo_module (Cpu 0))\<lparr>outputs := [demo_output], forward_passes := 1\<rparr>)
   \<and> forward_passes (demo_module (Cpu 0)) = 0
   \<and> forward_passes ((demo_module (Cpu 0))\<lparr>outputs := [demo_output], forward_passes := 1\<rparr>)
       = forward_passes (demo_module (Cpu 0)) + 1
   \<and> prepareNDArray demo_env ''missing.jpg'' = Inl (CvError ''cvtColor'')
   \<and> predict demo_env ''missing.jpg'' (demo_module (Cpu 0)) demo_categories 2 =
       (Inl (CvError ''cvtColor''), demo_module (Cpu 0))"
proof -
  let ?m = "(demo_module (Cpu 0))\<lparr>outputs := [demo_output], forward_passes := 1\<rparr>"
  have p: "predict demo_env ''violin.jpg'' (demo_module (Cpu 0)) demo_categories 2 =
     (Inr [(Val 0.7, ''n02 dog''), (Val 0.2, ''n01 cat'')], ?m)"
    by (simp add: demo_predict demo_select)
  have z: "forward_passes (demo_module (Cpu 0)) = 0"
    by (simp add: demo_module_def)
  have one: "forward_passes ?m = forward_passes (demo_module (Cpu 0)) + 1"
    by (rule predict_one_forward_pass [OF p, THEN conjunct2, THEN conjunct2, THEN conjunct2,
          rule_format, OF refl])
  obtain r m where q: "predict demo_env ''missing.jpg'' (demo_module (Cpu 0)) demo_categories 2 = (r, m)"
    by (cases "predict demo_env ''missing.jpg'' (demo_module (Cpu 0)) demo_categories 2")
  note c1 = predict_one_forward_pass [OF q, THEN conjunct1, rule_format, OF demo_missing]
  from c1 q have miss: "predict demo_env ''missing.jpg'' (demo_module (Cpu 0)) demo_categories 2 =
       (Inl (CvError ''cvtColor''), demo_module (Cpu 0))"
    by simp
  from p z one demo_missing miss show ?thesis by (intro conjI)
qed

section \<open>Lemmas on errors\<close>






section \<open>Claim on errors\<close>



end
